theory Spec2Isabelle
  imports Complex_Main
begin

section \<open>Strings as Python uses them\<close>

text \<open>
  A model string is a list of \<open>char\<close>, one per code point, for the code points up to
  255. \<open>lower\<close> is \<open>str.lower()\<close>, \<open>contains sub s\<close> is \<open>sub in s\<close>, \<open>strip\<close> is
  \<open>str.strip()\<close> and \<open>py_int\<close> is \<open>int(s)\<close> in base ten, \<open>None\<close> where Python raises
  \<open>ValueError\<close>: on a malformed literal, and on one with more than 4300 digits.
\<close>

definition upper_chars :: string where
  "upper_chars = ''ABCDEFGHIJKLMNOPQRSTUVWXYZ'' @
                   [CHR 0xC0, CHR 0xC1, CHR 0xC2, CHR 0xC3, CHR 0xC4, CHR 0xC5, CHR 0xC6, CHR 0xC7, CHR 0xC8, CHR 0xC9,
                    CHR 0xCA, CHR 0xCB, CHR 0xCC, CHR 0xCD, CHR 0xCE, CHR 0xCF, CHR 0xD0, CHR 0xD1, CHR 0xD2, CHR 0xD3,
                    CHR 0xD4, CHR 0xD5, CHR 0xD6, CHR 0xD8, CHR 0xD9, CHR 0xDA, CHR 0xDB, CHR 0xDC, CHR 0xDD, CHR 0xDE]"

definition lower_chars :: string where
  "lower_chars = ''abcdefghijklmnopqrstuvwxyz'' @
                   [CHR 0xE0, CHR 0xE1, CHR 0xE2, CHR 0xE3, CHR 0xE4, CHR 0xE5, CHR 0xE6, CHR 0xE7, CHR 0xE8, CHR 0xE9,
                    CHR 0xEA, CHR 0xEB, CHR 0xEC, CHR 0xED, CHR 0xEE, CHR 0xEF, CHR 0xF0, CHR 0xF1, CHR 0xF2, CHR 0xF3,
                    CHR 0xF4, CHR 0xF5, CHR 0xF6, CHR 0xF8, CHR 0xF9, CHR 0xFA, CHR 0xFB, CHR 0xFC, CHR 0xFD, CHR 0xFE]"

definition lower_char :: "char \<Rightarrow> char" where
  "lower_char c = (case map_of (zip upper_chars lower_chars) c of Some l \<Rightarrow> l | None \<Rightarrow> c)"

definition lower :: "string \<Rightarrow> string" where
  "lower s = map lower_char s"

fun starts_with :: "string \<Rightarrow> string \<Rightarrow> bool" where
  "starts_with [] s = True"
| "starts_with (p # ps) [] = False"
| "starts_with (p # ps) (c # cs) = (p = c \<and> starts_with ps cs)"

fun contains :: "string \<Rightarrow> string \<Rightarrow> bool" where
  "contains sub [] = (sub = [])"
| "contains sub (c # cs) = (starts_with sub (c # cs) \<or> contains sub cs)"

definition is_space :: "char \<Rightarrow> bool" where
  "is_space c =
     (c \<in> set [CHR 0x09, CHR 0x0A, CHR 0x0B, CHR 0x0C, CHR 0x0D,
                CHR 0x1C, CHR 0x1D, CHR 0x1E, CHR 0x1F, CHR '' '', CHR 0x85, CHR 0xA0])"

definition strip :: "string \<Rightarrow> string" where
  "strip s = rev (dropWhile is_space (rev (dropWhile is_space s)))"

definition digit_val :: "char \<Rightarrow> int option" where
  "digit_val c = map_of (zip ''0123456789'' [0, 1, 2, 3, 4, 5, 6, 7, 8, 9]) c"

definition is_digit :: "char \<Rightarrow> bool" where
  "is_digit c = (digit_val c \<noteq> None)"

text \<open>
  The digits of a literal, read left to right with the value so far: a single underscore
  is allowed between two digits and nowhere else.
\<close>

fun digits_from :: "int \<Rightarrow> string \<Rightarrow> int option" where
  "digits_from acc [] = Some acc"
| "digits_from acc [c] =
     (case digit_val c of Some v \<Rightarrow> Some (acc * 10 + v) | None \<Rightarrow> None)"
| "digits_from acc (c # d # cs) =
     (case digit_val c of
        Some v \<Rightarrow> digits_from (acc * 10 + v) (d # cs)
      | None \<Rightarrow> if c = CHR ''_'' \<and> is_digit d then digits_from acc (d # cs) else None)"

definition unsigned_int :: "string \<Rightarrow> int option" where
  "unsigned_int s =
     (case s of
        [] \<Rightarrow> None
      | c # cs \<Rightarrow>
          if is_digit c then
            (case digits_from 0 (c # cs) of
               None \<Rightarrow> None
             | Some n \<Rightarrow> if length (filter is_digit s) > 4300 then None else Some n)
          else None)"

definition py_int :: "string \<Rightarrow> int option" where
  "py_int s =
     (case strip s of
        [] \<Rightarrow> None
      | c # cs \<Rightarrow>
          if c = CHR ''-'' then map_option uminus (unsigned_int cs)
          else if c = CHR ''+'' then unsigned_int cs
          else unsigned_int (c # cs))"

section \<open>Constants of the client module\<close>

definition HAIKU_MODEL :: string where "HAIKU_MODEL = ''claude-haiku-4-5''"
definition SONNET_MODEL :: string where "SONNET_MODEL = ''claude-sonnet-4-5''"
definition OPUS_MODEL :: string where "OPUS_MODEL = ''claude-opus-4-5''"

text \<open>
  Prices are Python floats. HOL has no such type, so the float arithmetic the module uses
  is a parameter: true division of two integers, product, sum, and the float written as an
  integral literal (\<open>1.00\<close>, \<open>15.00\<close>). Nothing is assumed about these operations.
\<close>

record 'f float_ops =
  ratio :: "int \<Rightarrow> int \<Rightarrow> 'f"
  times :: "'f \<Rightarrow> 'f \<Rightarrow> 'f"
  plus :: "'f \<Rightarrow> 'f \<Rightarrow> 'f"
  lit :: "int \<Rightarrow> 'f"

definition HAIKU_INPUT :: "'f float_ops \<Rightarrow> 'f" where "HAIKU_INPUT fl = lit fl 1"
definition HAIKU_OUTPUT :: "'f float_ops \<Rightarrow> 'f" where "HAIKU_OUTPUT fl = lit fl 5"
definition HAIKU_CONTEXT :: int where "HAIKU_CONTEXT = 200000"

definition SONNET_INPUT :: "'f float_ops \<Rightarrow> 'f" where "SONNET_INPUT fl = lit fl 3"
definition SONNET_OUTPUT :: "'f float_ops \<Rightarrow> 'f" where "SONNET_OUTPUT fl = lit fl 15"
definition SONNET_CONTEXT :: int where "SONNET_CONTEXT = 200000"

definition OPUS_INPUT :: "'f float_ops \<Rightarrow> 'f" where "OPUS_INPUT fl = lit fl 5"
definition OPUS_OUTPUT :: "'f float_ops \<Rightarrow> 'f" where "OPUS_OUTPUT fl = lit fl 25"
definition OPUS_CONTEXT :: int where "OPUS_CONTEXT = 200000"

text \<open>Exact rational arithmetic, one instance of the parameter, for concrete evaluation.\<close>

definition exact_ops :: "rat float_ops" where
  "exact_ops = \<lparr>ratio = (\<lambda>a b. of_int a / of_int b), times = (*), plus = (+), lit = of_int\<rparr>"

section \<open>Exceptions\<close>

datatype error =
    ValueError string
  | AttributeError
  | TypeError
  | EOFError
  | SystemExit int
  | IOError
  | JSONDecodeError
  | UnicodeDecodeError

section \<open>Cost estimation\<close>

definition unknown_model_message :: "string \<Rightarrow> string" where
  "unknown_model_message model =
     [CHR 0x0A] @ ''Unknown model: '' @ model @ [CHR 0x0A]
     @ ''Valid models: '' @ HAIKU_MODEL @ '', '' @ SONNET_MODEL @ '', '' @ OPUS_MODEL @ [CHR 0x0A]
     @ ''Use client.set_model() to change your model''"

definition estimate_cost :: "'f float_ops \<Rightarrow> int \<Rightarrow> int \<Rightarrow> string \<Rightarrow> error + 'f" where
  "estimate_cost fl input_tokens output_tokens model =
     (if contains ''haiku'' (lower model) then
        Inr (plus fl (times fl (ratio fl input_tokens 1000000) (HAIKU_INPUT fl))
                     (times fl (ratio fl output_tokens 1000000) (HAIKU_OUTPUT fl)))
      else if contains ''sonnet'' (lower model) then
        Inr (plus fl (times fl (ratio fl input_tokens 1000000) (SONNET_INPUT fl))
                     (times fl (ratio fl output_tokens 1000000) (SONNET_OUTPUT fl)))
      else if contains ''opus'' (lower model) then
        Inr (plus fl (times fl (ratio fl input_tokens 1000000) (OPUS_INPUT fl))
                     (times fl (ratio fl output_tokens 1000000) (OPUS_OUTPUT fl)))
      else Inl (ValueError (unknown_model_message model)))"

subsection \<open>The estimator as the specification words it\<close>

datatype family = Haiku | Sonnet | Opus

fun family_token :: "family \<Rightarrow> string" where
  "family_token Haiku = ''haiku''"
| "family_token Sonnet = ''sonnet''"
| "family_token Opus = ''opus''"

fun input_price :: "family \<Rightarrow> int" where
  "input_price Haiku = 1"
| "input_price Sonnet = 3"
| "input_price Opus = 5"

fun output_price :: "family \<Rightarrow> int" where
  "output_price Haiku = 5"
| "output_price Sonnet = 15"
| "output_price Opus = 25"

definition spec_family :: "string \<Rightarrow> family option" where
  "spec_family model =
     find (\<lambda>f. contains (family_token f) (lower model)) [Haiku, Sonnet, Opus]"

definition spec_cost :: "'f float_ops \<Rightarrow> int \<Rightarrow> int \<Rightarrow> family \<Rightarrow> 'f" where
  "spec_cost fl i o_t f =
     plus fl (times fl (ratio fl i 1000000) (lit fl (input_price f)))
             (times fl (ratio fl o_t 1000000) (lit fl (output_price f)))"

section \<open>The configuration file\<close>

text \<open>
  A JSON value as \<open>json.load\<close> returns it: \<open>JNull\<close> is Python's \<open>None\<close>, an object is a
  \<open>dict\<close> with its entries in insertion order. Fractional numbers do not occur in the
  configuration and are left out.
\<close>

datatype json =
    JNull
  | JBool bool
  | JInt int
  | JStr string
  | JArr "json list"
  | JObj "(string \<times> json) list"

text \<open>
  What is at \<open>config/api/anthropic.json\<close>: nothing, or an entry with two attributes.
  The first says whether opening and reading it succeeds (it fails with \<open>IOError\<close> on a
  directory or without read permission). The second is what the bytes are to
  \<open>json.load\<close>: not text (\<open>UnicodeDecodeError\<close>), text that is not JSON
  (\<open>JSONDecodeError\<close>), or the value it reads. A value written by \<open>json.dump\<close> is the
  value \<open>json.load\<close> reads back.
\<close>

datatype content = Undecodable | Malformed | Holds json

datatype config_file = Missing | Stored bool content

definition path_exists :: "config_file \<Rightarrow> bool" where
  "path_exists f = (f \<noteq> Missing)"

fun json_load :: "config_file \<Rightarrow> error + json" where
  "json_load Missing = Inl IOError"
| "json_load (Stored False c) = Inl IOError"
| "json_load (Stored True Undecodable) = Inl UnicodeDecodeError"
| "json_load (Stored True Malformed) = Inl JSONDecodeError"
| "json_load (Stored True (Holds j)) = Inr j"

text \<open>
  \<open>open(config_path, 'w')\<close> followed by \<open>json.dump\<close>, where opening succeeds: the
  content is replaced, read permission stays as it was, and a new file can be read.
\<close>

fun overwrite :: "config_file \<Rightarrow> json \<Rightarrow> config_file" where
  "overwrite Missing j = Stored True (Holds j)"
| "overwrite (Stored r c) j = Stored r (Holds j)"

text \<open>\<open>d.get(k, default)\<close> and \<open>d[k] = v\<close>; only a \<open>dict\<close> has either.\<close>

fun dict_get :: "json \<Rightarrow> string \<Rightarrow> json \<Rightarrow> error + json" where
  "dict_get (JObj kvs) k d = Inr (case map_of kvs k of Some v \<Rightarrow> v | None \<Rightarrow> d)"
| "dict_get _ k d = Inl AttributeError"

fun store_key :: "string \<Rightarrow> json \<Rightarrow> (string \<times> json) list \<Rightarrow> (string \<times> json) list" where
  "store_key k v [] = [(k, v)]"
| "store_key k v ((k', v') # kvs) =
     (if k' = k then (k, v) # kvs else (k', v') # store_key k v kvs)"

fun dict_setitem :: "json \<Rightarrow> string \<Rightarrow> json \<Rightarrow> error + json" where
  "dict_setitem (JObj kvs) k v = Inr (JObj (store_key k v kvs))"
| "dict_setitem _ k v = Inl TypeError"

section \<open>The client and its surroundings\<close>

text \<open>
  Besides the file, the surroundings say whether the path can be opened for writing
  (not without the directory \<open>config/api\<close>, not on a directory, not without write
  permission). Console output is a log of the messages the results below speak about;
  menus and banners are not recorded. Console input is the list of lines still to be
  typed; \<open>input()\<close> on the empty list raises \<open>EOFError\<close>.
\<close>

datatype 'f event =
    LoadWarning error
  | InfoNoModel
  | ErrModelChoice
  | ErrTokenChoice
  | WarnHighValue
  | WarnCost 'f
  | ErrRange int
  | ErrNumber
  | OkSelected json
  | OkChanged json

record 'f world =
  disk :: config_file
  writable :: bool
  stdin :: "string list"
  stdout :: "'f event list"

record client =
  model :: json
  default_max_tokens :: json

definition load_model_from_config :: "'f world \<Rightarrow> (error + json \<times> json) \<times> 'f world" where
  "load_model_from_config w =
     (if \<not> path_exists (disk w) then (Inr (JNull, JNull), w)
      else
        case json_load (disk w) of
          Inl e \<Rightarrow>
            if e = JSONDecodeError \<or> e = IOError then
              (Inr (JNull, JNull), w\<lparr>stdout := stdout w @ [LoadWarning e]\<rparr>)
            else (Inl e, w)
        | Inr config \<Rightarrow>
            (case dict_get config ''model'' JNull of
               Inl e \<Rightarrow> (Inl e, w)
             | Inr m \<Rightarrow>
                 (case dict_get config ''llm'' (JObj []) of
                    Inl e \<Rightarrow> (Inl e, w)
                  | Inr llm \<Rightarrow>
                      (case dict_get llm ''default_max_tokens'' JNull of
                         Inl e \<Rightarrow> (Inl e, w)
                       | Inr max_tokens \<Rightarrow> (Inr (m, max_tokens), w)))))"

text \<open>
  The record save starts from: \<open>{}\<close>, replaced by what the file holds when the path
  exists; \<open>JSONDecodeError\<close> and \<open>IOError\<close> put \<open>{}\<close> back, any other exception leaves
  the function.
\<close>

definition existing_config :: "config_file \<Rightarrow> error + json" where
  "existing_config f =
     (if path_exists f then
        (case json_load f of
           Inr j \<Rightarrow> Inr j
         | Inl e \<Rightarrow> if e = JSONDecodeError \<or> e = IOError then Inr (JObj []) else Inl e)
      else Inr (JObj []))"

definition save_model_to_config :: "client \<Rightarrow> 'f world \<Rightarrow> (error + unit) \<times> 'f world" where
  "save_model_to_config self w =
     (case existing_config (disk w) of
        Inl e \<Rightarrow> (Inl e, w)
      | Inr config \<Rightarrow>
          (case dict_setitem config ''model'' (model self) of
             Inl e \<Rightarrow> (Inl e, w)
           | Inr config1 \<Rightarrow>
               (case dict_setitem config1 ''default_max_tokens'' (default_max_tokens self) of
                  Inl e \<Rightarrow> (Inl e, w)
                | Inr config2 \<Rightarrow>
                    if writable w then (Inr (), w\<lparr>disk := overwrite (disk w) config2\<rparr>)
                    else (Inl IOError, w))))"

definition get_context_limit :: "client \<Rightarrow> error + int" where
  "get_context_limit self =
     (case model self of
        JStr s \<Rightarrow>
          Inr (if contains ''haiku'' (lower s) then HAIKU_CONTEXT
               else if contains ''sonnet'' (lower s) then SONNET_CONTEXT
               else if contains ''opus'' (lower s) then OPUS_CONTEXT
               else 10000)
      | _ \<Rightarrow> Inl AttributeError)"

text \<open>\<open>estimate_cost(custom, custom, self.model)\<close>: only a \<open>str\<close> has \<open>lower()\<close>.\<close>

definition estimate_cost_of :: "'f float_ops \<Rightarrow> int \<Rightarrow> int \<Rightarrow> json \<Rightarrow> error + 'f" where
  "estimate_cost_of fl input_tokens output_tokens m =
     (case m of
        JStr s \<Rightarrow> estimate_cost fl input_tokens output_tokens s
      | _ \<Rightarrow> Inl AttributeError)"

subsection \<open>First-time setup\<close>

text \<open>
  The two \<open>while True\<close> loops of \<open>_prompt_model_selection\<close>. Each takes the client, the
  lines still to be typed and the log, and returns the outcome with all three. Every turn
  of a loop reads at least one line.
\<close>

fun model_loop ::
  "client \<Rightarrow> string list \<Rightarrow> 'f event list \<Rightarrow>
   (error + unit) \<times> client \<times> string list \<times> 'f event list" where
  "model_loop self [] out = (Inl EOFError, self, [], out)"
| "model_loop self (l # ins) out =
     (let choice = strip l in
      if choice = ''1'' then (Inr (), self\<lparr>model := JStr HAIKU_MODEL\<rparr>, ins, out)
      else if choice = ''2'' then (Inr (), self\<lparr>model := JStr SONNET_MODEL\<rparr>, ins, out)
      else if choice = ''3'' then (Inr (), self\<lparr>model := JStr OPUS_MODEL\<rparr>, ins, out)
      else if choice = ''4'' then (Inl (SystemExit 0), self, ins, out @ [InfoNoModel])
      else model_loop self ins (out @ [ErrModelChoice]))"

fun max_tokens_loop ::
  "'f float_ops \<Rightarrow> int \<Rightarrow> client \<Rightarrow> string list \<Rightarrow> 'f event list \<Rightarrow>
   (error + unit) \<times> client \<times> string list \<times> 'f event list" where
  "max_tokens_loop fl MAX_INPUT self [] out = (Inl EOFError, self, [], out)"
| "max_tokens_loop fl MAX_INPUT self (l # ins) out =
     (let choice = strip l in
      if choice = ''1'' then (Inr (), self\<lparr>default_max_tokens := JInt 1024\<rparr>, ins, out)
      else if choice = ''2'' then (Inr (), self\<lparr>default_max_tokens := JInt 2048\<rparr>, ins, out)
      else if choice = ''3'' then (Inr (), self\<lparr>default_max_tokens := JInt 4096\<rparr>, ins, out)
      else if choice = ''4'' then (Inr (), self\<lparr>default_max_tokens := JInt 8192\<rparr>, ins, out)
      else if choice = ''5'' then
        (case ins of
           [] \<Rightarrow> (Inl EOFError, self, [], out)
         | v # ins1 \<Rightarrow>
             (case py_int (strip v) of
                None \<Rightarrow> max_tokens_loop fl MAX_INPUT self ins1 (out @ [ErrNumber])
              | Some custom \<Rightarrow>
                  if 1 \<le> custom \<and> custom \<le> MAX_INPUT then
                    if custom > 10000 then
                      (case estimate_cost_of fl custom custom (model self) of
                         Inl (ValueError msg) \<Rightarrow>
                           max_tokens_loop fl MAX_INPUT self ins1
                             (out @ [WarnHighValue, ErrNumber])
                       | Inl e \<Rightarrow> (Inl e, self, ins1, out @ [WarnHighValue])
                       | Inr cost \<Rightarrow>
                           (case ins1 of
                              [] \<Rightarrow>
                                (Inl EOFError, self, [], out @ [WarnHighValue, WarnCost cost])
                            | a # ins2 \<Rightarrow>
                                if lower (strip a) \<noteq> ''y'' then
                                  max_tokens_loop fl MAX_INPUT self ins2
                                    (out @ [WarnHighValue, WarnCost cost])
                                else
                                  (Inr (), self\<lparr>default_max_tokens := JInt custom\<rparr>, ins2,
                                   out @ [WarnHighValue, WarnCost cost])))
                    else (Inr (), self\<lparr>default_max_tokens := JInt custom\<rparr>, ins1, out)
                  else max_tokens_loop fl MAX_INPUT self ins1 (out @ [ErrRange MAX_INPUT])))
      else max_tokens_loop fl MAX_INPUT self ins (out @ [ErrTokenChoice]))"

definition prompt_model_selection ::
  "'f float_ops \<Rightarrow> client \<Rightarrow> 'f world \<Rightarrow> (error + unit) \<times> client \<times> 'f world" where
  "prompt_model_selection fl self w =
     (case model_loop self (stdin w) (stdout w) of
        (Inl e, self1, ins1, out1) \<Rightarrow> (Inl e, self1, w\<lparr>stdin := ins1, stdout := out1\<rparr>)
      | (Inr u, self1, ins1, out1) \<Rightarrow>
          (case get_context_limit self1 of
             Inl e \<Rightarrow> (Inl e, self1, w\<lparr>stdin := ins1, stdout := out1\<rparr>)
           | Inr MAX_INPUT \<Rightarrow>
               (case max_tokens_loop fl MAX_INPUT self1 ins1 out1 of
                  (Inl e, self2, ins2, out2) \<Rightarrow>
                    (Inl e, self2, w\<lparr>stdin := ins2, stdout := out2\<rparr>)
                | (Inr u', self2, ins2, out2) \<Rightarrow>
                    (case save_model_to_config self2 (w\<lparr>stdin := ins2, stdout := out2\<rparr>) of
                       (Inl e, w3) \<Rightarrow> (Inl e, self2, w3)
                     | (Inr u'', w3) \<Rightarrow>
                         (Inr (), self2,
                          w3\<lparr>stdout := stdout w3 @ [OkSelected (model self2)]\<rparr>)))))"

subsection \<open>Changing the model, and construction\<close>

definition valid_models :: "string list" where
  "valid_models = [HAIKU_MODEL, SONNET_MODEL, OPUS_MODEL]"

definition invalid_model_message :: "string \<Rightarrow> string" where
  "invalid_model_message new_model =
     [CHR 0x0A] @ ''Invalid model: '' @ new_model @ [CHR 0x0A]
     @ ''Valid models: '' @ HAIKU_MODEL @ '', '' @ SONNET_MODEL @ '', '' @ OPUS_MODEL"

definition set_model ::
  "client \<Rightarrow> string \<Rightarrow> 'f world \<Rightarrow> (error + unit) \<times> client \<times> 'f world" where
  "set_model self new_model w =
     (if new_model \<notin> set valid_models then
        (Inl (ValueError (invalid_model_message new_model)), self, w)
      else
        let self1 = self\<lparr>model := JStr new_model\<rparr> in
        case save_model_to_config self1 w of
          (Inl e, w1) \<Rightarrow> (Inl e, self1, w1)
        | (Inr u, w1) \<Rightarrow> (Inr (), self1, w1\<lparr>stdout := stdout w1 @ [OkChanged (model self1)]\<rparr>))"

text \<open>
  \<open>Client.__init__\<close> from the point where the API key is known: load, and run the
  first-time setup when either field came back as \<open>None\<close>. An exception leaves no client.
\<close>

definition client_init :: "'f float_ops \<Rightarrow> 'f world \<Rightarrow> (error + client) \<times> 'f world" where
  "client_init fl w =
     (case load_model_from_config w of
        (Inl e, w1) \<Rightarrow> (Inl e, w1)
      | (Inr (m, t), w1) \<Rightarrow>
          (let self = \<lparr>model = m, default_max_tokens = t\<rparr> in
           if m = JNull \<or> t = JNull then
             (case prompt_model_selection fl self w1 of
                (Inl e, self1, w2) \<Rightarrow> (Inl e, w2)
              | (Inr u, self1, w2) \<Rightarrow> (Inr self1, w2))
           else (Inr self, w1)))"

section \<open>Facts about the string functions\<close>

lemma starts_with_iff: "starts_with p s \<longleftrightarrow> (\<exists>r. s = p @ r)"
  by (induction p s rule: starts_with.induct) auto

lemma contains_iff: "contains sub s \<longleftrightarrow> (\<exists>pre post. s = pre @ sub @ post)"
proof (induction s)
  case Nil
  show ?case by auto
next
  case (Cons c cs)
  show ?case
  proof
    assume "contains sub (c # cs)"
    then consider "starts_with sub (c # cs)" | "contains sub cs" by auto
    then show "\<exists>pre post. c # cs = pre @ sub @ post"
    proof cases
      case 1
      then obtain r where "c # cs = sub @ r" by (auto simp: starts_with_iff)
      then have "c # cs = [] @ sub @ r" by simp
      then show ?thesis by blast
    next
      case 2
      then obtain pre post where "cs = pre @ sub @ post" using Cons.IH by blast
      then have "c # cs = (c # pre) @ sub @ post" by simp
      then show ?thesis by blast
    qed
  next
    assume "\<exists>pre post. c # cs = pre @ sub @ post"
    then obtain pre post where e: "c # cs = pre @ sub @ post" by blast
    show "contains sub (c # cs)"
    proof (cases pre)
      case Nil
      with e have "starts_with sub (c # cs)" by (auto simp: starts_with_iff)
      then show ?thesis by simp
    next
      case (Cons a pre')
      with e have "cs = pre' @ sub @ post" by simp
      then have "contains sub cs" using Cons.IH by blast
      then show ?thesis by simp
    qed
  qed
qed

lemma contains_mid: "contains sub (pre @ sub @ post)"
  by (auto simp: contains_iff)

section \<open>Cost estimation: results\<close>

text \<open>
  C4. For all token counts \<open>i\<close> and \<open>o\<close> and every model string whose lower-cased form
  contains one of the family tokens, \<open>estimate_cost\<close> returns
  \<open>(i / 1_000_000) * input_price + (o / 1_000_000) * output_price\<close> with the prices of the
  first family, in the order haiku, sonnet, opus, whose token the lower-cased string
  contains; the match ignores the casing of the input.
\<close>

theorem estimate_cost_formula:
  assumes "contains ''haiku'' (lower m) \<or> contains ''sonnet'' (lower m)
           \<or> contains ''opus'' (lower m)"
  shows "(\<exists>f. spec_family m = Some f
              \<and> contains (family_token f) (lower m)
              \<and> estimate_cost fl i o_t m = Inr (spec_cost fl i o_t f))
         \<and> (lower m' = lower m \<longrightarrow>
              estimate_cost fl i o_t m' = estimate_cost fl i o_t m)"
  using assms
  by (auto simp: spec_family_def estimate_cost_def spec_cost_def HAIKU_INPUT_def
      HAIKU_OUTPUT_def SONNET_INPUT_def SONNET_OUTPUT_def OPUS_INPUT_def OPUS_OUTPUT_def)

theorem estimate_cost_formula_witness:
  "contains ''sonnet'' (lower ''Claude-Sonnet-4-5'')
   \<and> spec_family ''Claude-Sonnet-4-5'' = Some Sonnet
   \<and> estimate_cost exact_ops 1000000 2000000 ''Claude-Sonnet-4-5'' = Inr 33
   \<and> estimate_cost exact_ops 1000000 2000000 ''claude-sonnet-4-5'' = Inr 33"
proof -
  have c: "contains ''sonnet'' (lower ''Claude-Sonnet-4-5'')" by code_simp
  have l: "lower ''claude-sonnet-4-5'' = lower ''Claude-Sonnet-4-5''" by code_simp
  have f: "spec_family ''Claude-Sonnet-4-5'' = Some Sonnet" by code_simp
  have v: "spec_cost exact_ops 1000000 2000000 Sonnet = 33"
    by (simp add: spec_cost_def exact_ops_def)
  from estimate_cost_formula
         [of "''Claude-Sonnet-4-5''" exact_ops 1000000 2000000 "''claude-sonnet-4-5''"]
       c l f v
  show ?thesis by auto
qed

text \<open>
  C5. For every model string whose lower-cased form contains none of the three family
  tokens, \<open>estimate_cost\<close> raises: the result is the \<open>ValueError\<close> whose message contains
  the rejected string and each of the three valid identifiers, and it is never a cost.
\<close>

theorem estimate_cost_unknown:
  assumes "\<not> contains ''haiku'' (lower m)"
      and "\<not> contains ''sonnet'' (lower m)"
      and "\<not> contains ''opus'' (lower m)"
  shows "estimate_cost fl i o_t m = Inl (ValueError (unknown_model_message m))
         \<and> (\<forall>c. estimate_cost fl i o_t m \<noteq> Inr c)
         \<and> contains m (unknown_model_message m)
         \<and> contains HAIKU_MODEL (unknown_model_message m)
         \<and> contains SONNET_MODEL (unknown_model_message m)
         \<and> contains OPUS_MODEL (unknown_model_message m)"
proof -
  have e: "estimate_cost fl i o_t m = Inl (ValueError (unknown_model_message m))"
    using assms by (simp add: estimate_cost_def)
  have a: "contains m (unknown_model_message m)"
    unfolding unknown_model_message_def
    using contains_mid [of m "[CHR 0x0A] @ ''Unknown model: ''"] by simp
  have h: "contains HAIKU_MODEL (unknown_model_message m)"
    unfolding unknown_model_message_def
    using contains_mid
      [of HAIKU_MODEL "[CHR 0x0A] @ ''Unknown model: '' @ m @ [CHR 0x0A] @ ''Valid models: ''"]
    by simp
  have s: "contains SONNET_MODEL (unknown_model_message m)"
    unfolding unknown_model_message_def
    using contains_mid
      [of SONNET_MODEL "[CHR 0x0A] @ ''Unknown model: '' @ m @ [CHR 0x0A]
                         @ ''Valid models: '' @ HAIKU_MODEL @ '', ''"]
    by simp
  have p: "contains OPUS_MODEL (unknown_model_message m)"
    unfolding unknown_model_message_def
    using contains_mid
      [of OPUS_MODEL "[CHR 0x0A] @ ''Unknown model: '' @ m @ [CHR 0x0A]
                       @ ''Valid models: '' @ HAIKU_MODEL @ '', '' @ SONNET_MODEL @ '', ''"]
    by simp
  from e a h s p show ?thesis by simp
qed

theorem estimate_cost_unknown_witness:
  "\<not> contains ''haiku'' (lower ''gpt-4'') \<and> \<not> contains ''sonnet'' (lower ''gpt-4'')
   \<and> \<not> contains ''opus'' (lower ''gpt-4'')
   \<and> estimate_cost exact_ops 5 5 ''gpt-4'' = Inl (ValueError (unknown_model_message ''gpt-4''))
   \<and> contains ''gpt-4'' (unknown_model_message ''gpt-4'')
   \<and> contains ''claude-opus-4-5'' (unknown_model_message ''gpt-4'')"
proof -
  have h: "\<not> contains ''haiku'' (lower ''gpt-4'')" by code_simp
  have s: "\<not> contains ''sonnet'' (lower ''gpt-4'')" by code_simp
  have p: "\<not> contains ''opus'' (lower ''gpt-4'')" by code_simp
  from estimate_cost_unknown [OF h s p, of exact_ops 5 5] h s p
  show ?thesis by (simp add: OPUS_MODEL_def)
qed

section \<open>The configuration store: results\<close>

lemma map_of_store_key: "map_of (store_key k v kvs) = (map_of kvs)(k \<mapsto> v)"
  by (induction kvs) auto

lemma filter_store_key:
  "(\<And>x. \<not> P (k, x)) \<Longrightarrow> filter P (store_key k v kvs) = filter P kvs"
  by (induction kvs) auto

lemma save_on_object:
  "disk w = Stored True (Holds (JObj kvs)) \<Longrightarrow>
   save_model_to_config self w =
     (if writable w then
        (Inr (), w\<lparr>disk := Stored True (Holds (JObj
                    (store_key ''default_max_tokens'' (default_max_tokens self)
                       (store_key ''model'' (model self) kvs))))\<rparr>)
      else (Inl IOError, w))"
  by (simp add: save_model_to_config_def existing_config_def path_exists_def)

lemma save_on_nothing:
  "disk w = Missing \<or> disk w = Stored False c \<or> disk w = Stored True Malformed \<Longrightarrow>
   save_model_to_config self w =
     (if writable w then
        (Inr (), w\<lparr>disk := overwrite (disk w)
                    (JObj [(''model'', model self),
                           (''default_max_tokens'', default_max_tokens self)])\<rparr>)
      else (Inl IOError, w))"
  by (auto simp: save_model_to_config_def existing_config_def path_exists_def)

lemma save_failure_unchanged:
  "save_model_to_config self w = (Inl e, w') \<Longrightarrow> w' = w"
  by (auto simp: save_model_to_config_def split: sum.splits if_splits)

text \<open>
  C1. Saving a preference and loading it again does not give the preference back.
  \<open>_save_model_to_config\<close> stores the token limit under the top-level key
  \<open>default_max_tokens\<close>, while \<open>_load_model_from_config\<close> reads it from
  \<open>llm.default_max_tokens\<close>: starting from no file in a writable directory, saving
  \<open>(claude-haiku-4-5, 1024)\<close> and loading returns the model with \<open>None\<close> for the
  token limit.
\<close>

theorem save_then_load_drops_max_tokens:
  "save_model_to_config \<lparr>model = JStr ''claude-haiku-4-5'', default_max_tokens = JInt 1024\<rparr>
     (\<lparr>disk = Missing, writable = True, stdin = [], stdout = []\<rparr> :: rat world)
   = (Inr (), \<lparr>disk = Stored True (Holds (JObj [(''model'', JStr ''claude-haiku-4-5''),
                                                  (''default_max_tokens'', JInt 1024)])),
               writable = True, stdin = [], stdout = []\<rparr>)
   \<and> fst (load_model_from_config
          (\<lparr>disk = Stored True (Holds (JObj [(''model'', JStr ''claude-haiku-4-5''),
                                              (''default_max_tokens'', JInt 1024)])),
            writable = True, stdin = [], stdout = []\<rparr> :: rat world))
     = Inr (JStr ''claude-haiku-4-5'', JNull)"
  by (simp add: save_model_to_config_def existing_config_def load_model_from_config_def
      path_exists_def)

text \<open>
  C2. A first run with no file in a writable directory that picks model 2
  (\<open>claude-sonnet-4-5\<close>) and preset 2 (2048) leaves the record
  \<open>{"model": "claude-sonnet-4-5", "default_max_tokens": 2048}\<close>, with no \<open>llm\<close> object;
  loading it returns \<open>None\<close> for the token limit, and the next construction runs the
  setup prompt again.
\<close>

theorem first_run_persists_flat_record:
  "client_init exact_ops \<lparr>disk = Missing, writable = True, stdin = [''2'', ''2''], stdout = []\<rparr>
   = (Inr \<lparr>model = JStr ''claude-sonnet-4-5'', default_max_tokens = JInt 2048\<rparr>,
      \<lparr>disk = Stored True (Holds (JObj [(''model'', JStr ''claude-sonnet-4-5''),
                                         (''default_max_tokens'', JInt 2048)])),
       writable = True, stdin = [], stdout = [OkSelected (JStr ''claude-sonnet-4-5'')]\<rparr>)
   \<and> fst (load_model_from_config
          (\<lparr>disk = Stored True (Holds (JObj [(''model'', JStr ''claude-sonnet-4-5''),
                                              (''default_max_tokens'', JInt 2048)])),
            writable = True, stdin = [],
            stdout = [OkSelected (JStr ''claude-sonnet-4-5'')]\<rparr> :: rat world))
     = Inr (JStr ''claude-sonnet-4-5'', JNull)
   \<and> fst (client_init exact_ops
          \<lparr>disk = Stored True (Holds (JObj [(''model'', JStr ''claude-sonnet-4-5''),
                                             (''default_max_tokens'', JInt 2048)])),
           writable = True, stdin = [''1'', ''1''], stdout = []\<rparr>)
     = Inr \<lparr>model = JStr ''claude-haiku-4-5'', default_max_tokens = JInt 1024\<rparr>"
  by code_simp

text \<open>
  C3. When the stored record reads as a JSON object, every top-level key other than the
  two that save owns (\<open>model\<close> and \<open>default_max_tokens\<close>) is present after save with
  its value, in the same order. Where the path can be opened for writing, save succeeds
  and sets the two owned keys; where it cannot, save raises and leaves the file as it was.
\<close>

theorem save_keeps_other_keys:
  assumes "disk w = Stored True (Holds (JObj kvs))"
  shows "\<exists>kvs'. disk (snd (save_model_to_config self w)) = Stored True (Holds (JObj kvs'))
           \<and> (\<forall>k. k \<noteq> ''model'' \<and> k \<noteq> ''default_max_tokens'' \<longrightarrow> map_of kvs' k = map_of kvs k)
           \<and> filter (\<lambda>(k, v). k \<noteq> ''model'' \<and> k \<noteq> ''default_max_tokens'') kvs'
             = filter (\<lambda>(k, v). k \<noteq> ''model'' \<and> k \<noteq> ''default_max_tokens'') kvs
           \<and> (writable w \<longrightarrow>
                save_model_to_config self w
                  = (Inr (), w\<lparr>disk := Stored True (Holds (JObj kvs'))\<rparr>)
                \<and> map_of kvs' ''model'' = Some (model self)
                \<and> map_of kvs' ''default_max_tokens'' = Some (default_max_tokens self))
           \<and> (\<not> writable w \<longrightarrow> save_model_to_config self w = (Inl IOError, w))"
proof (cases "writable w")
  case True
  let ?kvs' = "store_key ''default_max_tokens'' (default_max_tokens self)
                 (store_key ''model'' (model self) kvs)"
  have s: "save_model_to_config self w = (Inr (), w\<lparr>disk := Stored True (Holds (JObj ?kvs'))\<rparr>)"
    using assms True by (simp add: save_on_object)
  have m: "map_of ?kvs' = (map_of kvs)(''model'' \<mapsto> model self,
                                        ''default_max_tokens'' \<mapsto> default_max_tokens self)"
    by (simp add: map_of_store_key)
  have f: "filter (\<lambda>(k, v). k \<noteq> ''model'' \<and> k \<noteq> ''default_max_tokens'') ?kvs'
           = filter (\<lambda>(k, v). k \<noteq> ''model'' \<and> k \<noteq> ''default_max_tokens'') kvs"
    by (simp add: filter_store_key)
  from s m f True show ?thesis by (intro exI [of _ ?kvs']) simp
next
  case False
  have s: "save_model_to_config self w = (Inl IOError, w)"
    using assms False by (simp add: save_on_object)
  with assms False show ?thesis by (intro exI [of _ kvs]) simp
qed

theorem save_keeps_other_keys_witness:
  "(\<exists>kvs'. save_model_to_config \<lparr>model = JStr ''x'', default_max_tokens = JInt 2048\<rparr>
              (\<lparr>disk = Stored True (Holds (JObj [(''other'', JInt 1)])), writable = True,
                stdin = [], stdout = []\<rparr> :: rat world)
            = (Inr (), \<lparr>disk = Stored True (Holds (JObj kvs')), writable = True,
                        stdin = [], stdout = []\<rparr>)
          \<and> map_of kvs' ''other'' = Some (JInt 1)
          \<and> map_of kvs' ''model'' = Some (JStr ''x''))
   \<and> save_model_to_config \<lparr>model = JStr ''x'', default_max_tokens = JInt 2048\<rparr>
         (\<lparr>disk = Stored True (Holds (JObj [(''other'', JInt 1)])), writable = False,
           stdin = [], stdout = []\<rparr> :: rat world)
       = (Inl IOError,
          \<lparr>disk = Stored True (Holds (JObj [(''other'', JInt 1)])), writable = False,
           stdin = [], stdout = []\<rparr>)"
proof -
  let ?w = "\<lparr>disk = Stored True (Holds (JObj [(''other'', JInt 1)])), writable = True,
             stdin = [], stdout = []\<rparr> :: rat world"
  let ?n = "\<lparr>disk = Stored True (Holds (JObj [(''other'', JInt 1)])), writable = False,
             stdin = [], stdout = []\<rparr> :: rat world"
  let ?p = "\<lparr>model = JStr ''x'', default_max_tokens = JInt 2048\<rparr>"
  have d: "disk ?w = Stored True (Holds (JObj [(''other'', JInt 1)]))" by simp
  have e: "disk ?n = Stored True (Holds (JObj [(''other'', JInt 1)]))" by simp
  have wr: "writable ?w" by simp
  have nw: "\<not> writable ?n" by simp
  from save_keeps_other_keys [OF d, of ?p] wr
  obtain kvs' where
        s: "save_model_to_config ?p ?w = (Inr (), ?w\<lparr>disk := Stored True (Holds (JObj kvs'))\<rparr>)"
    and m: "map_of kvs' ''model'' = Some (model ?p)"
    and k: "\<forall>k. k \<noteq> ''model'' \<and> k \<noteq> ''default_max_tokens'' \<longrightarrow>
                map_of kvs' k = map_of [(''other'', JInt 1)] k"
    by blast
  from k have "map_of kvs' ''other'' = Some (JInt 1)" by simp
  with s m have first: "\<exists>kvs'. save_model_to_config ?p ?w
            = (Inr (), \<lparr>disk = Stored True (Holds (JObj kvs')), writable = True,
                        stdin = [], stdout = []\<rparr>)
          \<and> map_of kvs' ''other'' = Some (JInt 1)
          \<and> map_of kvs' ''model'' = Some (JStr ''x'')"
    by (intro exI [of _ kvs']) simp
  from save_keeps_other_keys [OF e, of ?p] nw
  have second: "save_model_to_config ?p ?n = (Inl IOError, ?n)" by blast
  from first second show ?thesis by blast
qed

text \<open>
  The write in save is not guarded: on an entry that can be neither read nor written
  (a directory at the path, a file without permissions) the read error is absorbed and
  the write raises.
\<close>

theorem save_fails_when_write_fails:
  "save_model_to_config \<lparr>model = JStr ''claude-opus-4-5'', default_max_tokens = JInt 4096\<rparr>
     (\<lparr>disk = Stored False Malformed, writable = False, stdin = [], stdout = []\<rparr> :: rat world)
   = (Inl IOError,
      \<lparr>disk = Stored False Malformed, writable = False, stdin = [], stdout = []\<rparr>)"
  by (simp add: save_model_to_config_def existing_config_def path_exists_def)

text \<open>
  C10. When the file exists and reading it raises \<open>IOError\<close>, or its text is not JSON,
  save starts from the empty record. Where the path can be opened for writing it does not
  fail and the file then holds the two owned fields and nothing else, with no message;
  where the path cannot be opened for writing, save raises \<open>IOError\<close> and the file is
  unchanged.
\<close>

theorem save_over_unparsable_file:
  assumes "disk w = Stored False c \<or> disk w = Stored True Malformed"
  shows "(writable w \<and> disk w = Stored True Malformed \<longrightarrow>
            save_model_to_config self w =
              (Inr (),
               w\<lparr>disk := Stored True
                            (Holds (JObj [(''model'', model self),
                                          (''default_max_tokens'', default_max_tokens self)]))\<rparr>))
         \<and> (writable w \<and> disk w = Stored False c \<longrightarrow>
            save_model_to_config self w =
              (Inr (),
               w\<lparr>disk := Stored False
                            (Holds (JObj [(''model'', model self),
                                          (''default_max_tokens'', default_max_tokens self)]))\<rparr>))
         \<and> (\<not> writable w \<longrightarrow> save_model_to_config self w = (Inl IOError, w))"
  using assms by (auto simp: save_on_nothing [where c = c])

theorem save_over_unparsable_file_witness:
  "save_model_to_config \<lparr>model = JStr ''claude-opus-4-5'', default_max_tokens = JInt 4096\<rparr>
     (\<lparr>disk = Stored True Malformed, writable = True, stdin = [], stdout = []\<rparr> :: rat world)
   = (Inr (), \<lparr>disk = Stored True (Holds (JObj [(''model'', JStr ''claude-opus-4-5''),
                                                  (''default_max_tokens'', JInt 4096)])),
               writable = True, stdin = [], stdout = []\<rparr>)
   \<and> save_model_to_config \<lparr>model = JStr ''claude-opus-4-5'', default_max_tokens = JInt 4096\<rparr>
       (\<lparr>disk = Stored False (Holds (JObj [(''other'', JInt 1)])), writable = True,
         stdin = [], stdout = []\<rparr> :: rat world)
     = (Inr (), \<lparr>disk = Stored False (Holds (JObj [(''model'', JStr ''claude-opus-4-5''),
                                                     (''default_max_tokens'', JInt 4096)])),
                 writable = True, stdin = [], stdout = []\<rparr>)
   \<and> save_model_to_config \<lparr>model = JStr ''claude-opus-4-5'', default_max_tokens = JInt 4096\<rparr>
       (\<lparr>disk = Stored True Malformed, writable = False, stdin = [], stdout = []\<rparr> :: rat world)
     = (Inl IOError, \<lparr>disk = Stored True Malformed, writable = False, stdin = [], stdout = []\<rparr>)"
proof -
  let ?p = "\<lparr>model = JStr ''claude-opus-4-5'', default_max_tokens = JInt 4096\<rparr>"
  let ?a = "\<lparr>disk = Stored True Malformed, writable = True, stdin = [], stdout = []\<rparr> :: rat world"
  let ?b = "\<lparr>disk = Stored False (Holds (JObj [(''other'', JInt 1)])), writable = True,
             stdin = [], stdout = []\<rparr> :: rat world"
  let ?d = "\<lparr>disk = Stored True Malformed, writable = False, stdin = [], stdout = []\<rparr> :: rat world"
  have ha: "disk ?a = Stored False Malformed \<or> disk ?a = Stored True Malformed" by simp
  have hb: "disk ?b = Stored False (Holds (JObj [(''other'', JInt 1)]))
            \<or> disk ?b = Stored True Malformed" by simp
  have hd: "disk ?d = Stored False Malformed \<or> disk ?d = Stored True Malformed" by simp
  from save_over_unparsable_file [OF ha, of ?p]
       save_over_unparsable_file [OF hb, of ?p]
       save_over_unparsable_file [OF hd, of ?p]
  show ?thesis by simp
qed

text \<open>
  A missing file is the one case in which load says nothing: the result is
  \<open>(None, None)\<close> and the log is unchanged.
\<close>

theorem load_missing_file_is_silent:
  "load_model_from_config
     (\<lparr>disk = Missing, writable = True, stdin = [], stdout = []\<rparr> :: rat world)
   = (Inr (JNull, JNull), \<lparr>disk = Missing, writable = True, stdin = [], stdout = []\<rparr>)"
  by (simp add: load_model_from_config_def path_exists_def)

text \<open>
  Content that is not text is outside what load and save absorb: \<open>UnicodeDecodeError\<close>
  is neither of the two exceptions they catch, so it leaves load, construction and save.
\<close>

lemma load_undecodable_raises:
  "disk w = Stored True Undecodable \<Longrightarrow>
   load_model_from_config w = (Inl UnicodeDecodeError, w)
   \<and> client_init fl w = (Inl UnicodeDecodeError, w)
   \<and> save_model_to_config self w = (Inl UnicodeDecodeError, w)"
  by (simp add: load_model_from_config_def client_init_def save_model_to_config_def
      existing_config_def path_exists_def)

text \<open>
  C9. On a missing file, on a file whose reading raises \<open>IOError\<close>, and on text that is
  not JSON, load returns \<open>(None, None)\<close> and raises nothing; it logs a warning in the
  last two cases and nothing for a missing file; construction then continues into the
  setup prompt with both fields \<open>None\<close>.
\<close>

theorem load_tolerates_bad_file:
  assumes "disk w = Missing \<or> disk w = Stored False c \<or> disk w = Stored True Malformed"
  shows "load_model_from_config w =
           (Inr (JNull, JNull),
            if disk w = Missing then w
            else if disk w = Stored False c then w\<lparr>stdout := stdout w @ [LoadWarning IOError]\<rparr>
            else w\<lparr>stdout := stdout w @ [LoadWarning JSONDecodeError]\<rparr>)
         \<and> client_init fl w =
             (case prompt_model_selection fl \<lparr>model = JNull, default_max_tokens = JNull\<rparr>
                     (snd (load_model_from_config w)) of
                (Inl e, self1, w2) \<Rightarrow> (Inl e, w2)
              | (Inr u, self1, w2) \<Rightarrow> (Inr self1, w2))"
  using assms
  by (auto simp: load_model_from_config_def client_init_def path_exists_def)

theorem load_tolerates_bad_file_witness:
  "load_model_from_config
     (\<lparr>disk = Stored True Malformed, writable = True, stdin = [''3'', ''1''], stdout = []\<rparr>
      :: rat world)
   = (Inr (JNull, JNull),
      \<lparr>disk = Stored True Malformed, writable = True, stdin = [''3'', ''1''],
       stdout = [LoadWarning JSONDecodeError]\<rparr>)
   \<and> fst (client_init exact_ops
            \<lparr>disk = Stored True Malformed, writable = True, stdin = [''3'', ''1''],
             stdout = []\<rparr>)
     = Inr \<lparr>model = JStr ''claude-opus-4-5'', default_max_tokens = JInt 1024\<rparr>"
proof -
  let ?w = "\<lparr>disk = Stored True Malformed, writable = True, stdin = [''3'', ''1''],
             stdout = []\<rparr> :: rat world"
  have d: "disk ?w = Missing \<or> disk ?w = Stored False Malformed
           \<or> disk ?w = Stored True Malformed" by simp
  have p: "fst (prompt_model_selection exact_ops \<lparr>model = JNull, default_max_tokens = JNull\<rparr>
             \<lparr>disk = Stored True Malformed, writable = True, stdin = [''3'', ''1''],
              stdout = [LoadWarning JSONDecodeError]\<rparr>)
           = Inr ()
         \<and> fst (snd (prompt_model_selection exact_ops
                        \<lparr>model = JNull, default_max_tokens = JNull\<rparr>
             \<lparr>disk = Stored True Malformed, writable = True, stdin = [''3'', ''1''],
              stdout = [LoadWarning JSONDecodeError]\<rparr>))
           = \<lparr>model = JStr ''claude-opus-4-5'', default_max_tokens = JInt 1024\<rparr>"
    by code_simp
  from load_tolerates_bad_file [OF d, of exact_ops] p
  show ?thesis by (auto split: prod.splits sum.splits)
qed

section \<open>Changing the model: results\<close>

text \<open>
  C6. \<open>set_model\<close> on a string outside the three identifiers raises \<open>ValueError\<close> and
  leaves client and store as they were. On one of the three it sets the model field only,
  keeps \<open>default_max_tokens\<close>, and its outcome and store are those of one call of save
  with the updated client: a save that fails leaves the store as it was, and the save
  succeeds whenever the path can be opened for writing and the file is absent, raises
  \<open>IOError\<close> on reading, holds text that is not JSON, or reads as a JSON object.
\<close>

theorem set_model_validates_then_saves:
  "(new_model \<notin> set valid_models \<longrightarrow>
      set_model self new_model w = (Inl (ValueError (invalid_model_message new_model)), self, w))
   \<and> (new_model \<in> set valid_models \<longrightarrow>
        (\<exists>r w1. save_model_to_config (self\<lparr>model := JStr new_model\<rparr>) w = (r, w1)
           \<and> set_model self new_model w =
               (r, self\<lparr>model := JStr new_model\<rparr>,
                if r = Inr () then w1\<lparr>stdout := stdout w1 @ [OkChanged (JStr new_model)]\<rparr> else w1)
           \<and> default_max_tokens (self\<lparr>model := JStr new_model\<rparr>) = default_max_tokens self
           \<and> (r \<noteq> Inr () \<longrightarrow> w1 = w)
           \<and> (\<forall>kvs. writable w \<and> disk w = Stored True (Holds (JObj kvs)) \<longrightarrow>
                 r = Inr ()
                 \<and> disk w1 = Stored True (Holds (JObj
                               (store_key ''default_max_tokens'' (default_max_tokens self)
                                  (store_key ''model'' (JStr new_model) kvs)))))
           \<and> (\<forall>c. writable w
                   \<and> (disk w = Missing \<or> disk w = Stored False c \<or> disk w = Stored True Malformed)
                 \<longrightarrow> r = Inr ()
                     \<and> disk w1 = overwrite (disk w)
                                   (JObj [(''model'', JStr new_model),
                                          (''default_max_tokens'', default_max_tokens self)]))))"
proof (intro conjI impI)
  assume "new_model \<notin> set valid_models"
  then show "set_model self new_model w
             = (Inl (ValueError (invalid_model_message new_model)), self, w)"
    by (simp add: set_model_def)
next
  assume v: "new_model \<in> set valid_models"
  let ?self1 = "self\<lparr>model := JStr new_model\<rparr>"
  obtain r w1 where s: "save_model_to_config ?self1 w = (r, w1)"
    by (cases "save_model_to_config ?self1 w")
  have m: "set_model self new_model w =
             (r, ?self1,
              if r = Inr () then w1\<lparr>stdout := stdout w1 @ [OkChanged (JStr new_model)]\<rparr> else w1)"
    using v s by (cases r) (auto simp: set_model_def)
  have u: "r \<noteq> Inr () \<longrightarrow> w1 = w"
    using s save_failure_unchanged [of ?self1 w _ w1] by (cases r) auto
  have o: "\<forall>kvs. writable w \<and> disk w = Stored True (Holds (JObj kvs)) \<longrightarrow>
             r = Inr ()
             \<and> disk w1 = Stored True (Holds (JObj
                           (store_key ''default_max_tokens'' (default_max_tokens self)
                              (store_key ''model'' (JStr new_model) kvs))))"
    using s by (auto simp: save_on_object)
  have n: "\<forall>c. writable w
               \<and> (disk w = Missing \<or> disk w = Stored False c \<or> disk w = Stored True Malformed)
             \<longrightarrow> r = Inr ()
                 \<and> disk w1 = overwrite (disk w)
                               (JObj [(''model'', JStr new_model),
                                      (''default_max_tokens'', default_max_tokens self)])"
  proof (intro allI impI)
    fix c
    assume a: "writable w
               \<and> (disk w = Missing \<or> disk w = Stored False c \<or> disk w = Stored True Malformed)"
    then have "save_model_to_config ?self1 w
               = (Inr (), w\<lparr>disk := overwrite (disk w)
                    (JObj [(''model'', model ?self1),
                           (''default_max_tokens'', default_max_tokens ?self1)])\<rparr>)"
      using save_on_nothing [of w c ?self1] by simp
    with s show "r = Inr ()
                 \<and> disk w1 = overwrite (disk w)
                               (JObj [(''model'', JStr new_model),
                                      (''default_max_tokens'', default_max_tokens self)])"
      by auto
  qed
  from s m u o n
  show "\<exists>r w1. save_model_to_config ?self1 w = (r, w1)
           \<and> set_model self new_model w =
               (r, ?self1,
                if r = Inr () then w1\<lparr>stdout := stdout w1 @ [OkChanged (JStr new_model)]\<rparr> else w1)
           \<and> default_max_tokens ?self1 = default_max_tokens self
           \<and> (r \<noteq> Inr () \<longrightarrow> w1 = w)
           \<and> (\<forall>kvs. writable w \<and> disk w = Stored True (Holds (JObj kvs)) \<longrightarrow>
                 r = Inr ()
                 \<and> disk w1 = Stored True (Holds (JObj
                               (store_key ''default_max_tokens'' (default_max_tokens self)
                                  (store_key ''model'' (JStr new_model) kvs)))))
           \<and> (\<forall>c. writable w
                   \<and> (disk w = Missing \<or> disk w = Stored False c \<or> disk w = Stored True Malformed)
                 \<longrightarrow> r = Inr ()
                     \<and> disk w1 = overwrite (disk w)
                                   (JObj [(''model'', JStr new_model),
                                          (''default_max_tokens'', default_max_tokens self)]))"
    by (intro exI [of _ r] exI [of _ w1]) simp
qed

theorem set_model_validates_then_saves_witness:
  "''gpt-4'' \<notin> set valid_models
   \<and> set_model \<lparr>model = JStr ''claude-haiku-4-5'', default_max_tokens = JInt 4096\<rparr> ''gpt-4''
        (\<lparr>disk = Missing, writable = True, stdin = [], stdout = []\<rparr> :: rat world)
     = (Inl (ValueError (invalid_model_message ''gpt-4'')),
        \<lparr>model = JStr ''claude-haiku-4-5'', default_max_tokens = JInt 4096\<rparr>,
        \<lparr>disk = Missing, writable = True, stdin = [], stdout = []\<rparr>)
   \<and> ''claude-opus-4-5'' \<in> set valid_models
   \<and> fst (set_model \<lparr>model = JStr ''claude-haiku-4-5'', default_max_tokens = JInt 4096\<rparr>
             ''claude-opus-4-5''
             (\<lparr>disk = Missing, writable = True, stdin = [], stdout = []\<rparr> :: rat world))
     = Inr ()
   \<and> fst (snd (set_model \<lparr>model = JStr ''claude-haiku-4-5'', default_max_tokens = JInt 4096\<rparr>
             ''claude-opus-4-5''
             (\<lparr>disk = Missing, writable = True, stdin = [], stdout = []\<rparr> :: rat world)))
     = \<lparr>model = JStr ''claude-opus-4-5'', default_max_tokens = JInt 4096\<rparr>
   \<and> fst (set_model \<lparr>model = JStr ''claude-haiku-4-5'', default_max_tokens = JInt 4096\<rparr>
             ''claude-opus-4-5''
             (\<lparr>disk = Stored True (Holds (JObj [(''other'', JInt 1)])), writable = True,
               stdin = [], stdout = []\<rparr> :: rat world))
     = Inr ()
   \<and> set_model \<lparr>model = JStr ''claude-haiku-4-5'', default_max_tokens = JInt 4096\<rparr>
        ''claude-opus-4-5''
        (\<lparr>disk = Missing, writable = False, stdin = [], stdout = []\<rparr> :: rat world)
     = (Inl IOError, \<lparr>model = JStr ''claude-opus-4-5'', default_max_tokens = JInt 4096\<rparr>,
        \<lparr>disk = Missing, writable = False, stdin = [], stdout = []\<rparr>)"
proof -
  let ?p = "\<lparr>model = JStr ''claude-haiku-4-5'', default_max_tokens = JInt 4096\<rparr>"
  let ?w = "\<lparr>disk = Missing, writable = True, stdin = [], stdout = []\<rparr> :: rat world"
  let ?v = "\<lparr>disk = Stored True (Holds (JObj [(''other'', JInt 1)])), writable = True,
             stdin = [], stdout = []\<rparr> :: rat world"
  let ?n = "\<lparr>disk = Missing, writable = False, stdin = [], stdout = []\<rparr> :: rat world"
  have bad: "''gpt-4'' \<notin> set valid_models"
    by (simp add: valid_models_def HAIKU_MODEL_def SONNET_MODEL_def OPUS_MODEL_def)
  have good: "''claude-opus-4-5'' \<in> set valid_models"
    by (simp add: valid_models_def OPUS_MODEL_def)
  from set_model_validates_then_saves [of "''gpt-4''" ?p ?w] bad
  have a: "set_model ?p ''gpt-4'' ?w = (Inl (ValueError (invalid_model_message ''gpt-4'')), ?p, ?w)"
    by blast
  from set_model_validates_then_saves [of "''claude-opus-4-5''" ?p ?w] good
  have b: "fst (set_model ?p ''claude-opus-4-5'' ?w) = Inr ()
           \<and> fst (snd (set_model ?p ''claude-opus-4-5'' ?w))
             = \<lparr>model = JStr ''claude-opus-4-5'', default_max_tokens = JInt 4096\<rparr>"
    by auto
  from set_model_validates_then_saves [of "''claude-opus-4-5''" ?p ?v] good
  have c: "fst (set_model ?p ''claude-opus-4-5'' ?v) = Inr ()"
    by auto
  have f: "save_model_to_config (?p\<lparr>model := JStr ''claude-opus-4-5''\<rparr>) ?n = (Inl IOError, ?n)"
    by (simp add: save_model_to_config_def existing_config_def path_exists_def)
  from set_model_validates_then_saves [of "''claude-opus-4-5''" ?p ?n] good f
  have d: "set_model ?p ''claude-opus-4-5'' ?n
           = (Inl IOError, \<lparr>model = JStr ''claude-opus-4-5'', default_max_tokens = JInt 4096\<rparr>, ?n)"
    by auto
  from bad good a b c d show ?thesis by simp
qed

section \<open>First-time setup: results\<close>

lemma valid_model_cases:
  "m \<in> set valid_models \<longleftrightarrow> m = HAIKU_MODEL \<or> m = SONNET_MODEL \<or> m = OPUS_MODEL"
  by (auto simp: valid_models_def)

lemma tokens_of_models:
  "contains ''haiku'' (lower HAIKU_MODEL)"
  "\<not> contains ''haiku'' (lower SONNET_MODEL)" "contains ''sonnet'' (lower SONNET_MODEL)"
  "\<not> contains ''haiku'' (lower OPUS_MODEL)" "\<not> contains ''sonnet'' (lower OPUS_MODEL)"
  "contains ''opus'' (lower OPUS_MODEL)"
  by code_simp+

lemma context_limit_valid:
  "model self = JStr m \<Longrightarrow> m \<in> set valid_models \<Longrightarrow> get_context_limit self = Inr 200000"
  by (auto simp: valid_model_cases get_context_limit_def tokens_of_models
      HAIKU_CONTEXT_def SONNET_CONTEXT_def OPUS_CONTEXT_def)

lemma estimate_cost_valid:
  "m \<in> set valid_models \<Longrightarrow> \<exists>c. estimate_cost fl i o_t m = Inr c"
  by (auto simp: valid_model_cases estimate_cost_def tokens_of_models)

lemma model_loop_result:
  "model_loop self ins out = (Inr u, self1, ins1, out1) \<Longrightarrow>
   (\<exists>m \<in> set valid_models. self1 = self\<lparr>model := JStr m\<rparr>)"
proof (induction ins arbitrary: out)
  case Nil
  then show ?case by simp
next
  case (Cons l ins)
  then show ?case
    by (auto simp: Let_def valid_models_def split: if_splits)
qed

lemma max_tokens_preset:
  "strip l = ''1'' \<Longrightarrow> max_tokens_loop fl L self (l # ins) out
     = (Inr (), self\<lparr>default_max_tokens := JInt 1024\<rparr>, ins, out)"
  "strip l = ''2'' \<Longrightarrow> max_tokens_loop fl L self (l # ins) out
     = (Inr (), self\<lparr>default_max_tokens := JInt 2048\<rparr>, ins, out)"
  "strip l = ''3'' \<Longrightarrow> max_tokens_loop fl L self (l # ins) out
     = (Inr (), self\<lparr>default_max_tokens := JInt 4096\<rparr>, ins, out)"
  "strip l = ''4'' \<Longrightarrow> max_tokens_loop fl L self (l # ins) out
     = (Inr (), self\<lparr>default_max_tokens := JInt 8192\<rparr>, ins, out)"
  by simp_all

lemma max_tokens_other:
  "strip l \<notin> {''1'', ''2'', ''3'', ''4'', ''5''} \<Longrightarrow>
   max_tokens_loop fl L self (l # ins) out
     = max_tokens_loop fl L self ins (out @ [ErrTokenChoice])"
  by simp

lemma max_tokens_custom_eof:
  "strip l = ''5'' \<Longrightarrow> max_tokens_loop fl L self [l] out = (Inl EOFError, self, [], out)"
  by simp

lemma max_tokens_custom_not_a_number:
  "strip l = ''5'' \<Longrightarrow> py_int (strip v) = None \<Longrightarrow>
   max_tokens_loop fl L self (l # v # ins) out
     = max_tokens_loop fl L self ins (out @ [ErrNumber])"
  by simp

lemma max_tokens_custom_out_of_range:
  "strip l = ''5'' \<Longrightarrow> py_int (strip v) = Some custom \<Longrightarrow> custom < 1 \<or> L < custom \<Longrightarrow>
   max_tokens_loop fl L self (l # v # ins) out
     = max_tokens_loop fl L self ins (out @ [ErrRange L])"
  by auto

lemma max_tokens_custom_plain:
  "strip l = ''5'' \<Longrightarrow> py_int (strip v) = Some custom \<Longrightarrow> 1 \<le> custom \<Longrightarrow> custom \<le> L \<Longrightarrow>
   custom \<le> 10000 \<Longrightarrow>
   max_tokens_loop fl L self (l # v # ins) out
     = (Inr (), self\<lparr>default_max_tokens := JInt custom\<rparr>, ins, out)"
  by simp

lemma max_tokens_custom_high:
  assumes "strip l = ''5''" and "py_int (strip v) = Some custom" and "1 \<le> custom"
    and "custom \<le> L" and "10000 < custom"
  shows "estimate_cost_of fl custom custom (model self) = Inr cost \<Longrightarrow>
         max_tokens_loop fl L self [l, v] out
           = (Inl EOFError, self, [], out @ [WarnHighValue, WarnCost cost])"
    and "estimate_cost_of fl custom custom (model self) = Inr cost \<Longrightarrow>
         lower (strip a) \<noteq> ''y'' \<Longrightarrow>
         max_tokens_loop fl L self (l # v # a # ins) out
           = max_tokens_loop fl L self ins (out @ [WarnHighValue, WarnCost cost])"
    and "estimate_cost_of fl custom custom (model self) = Inr cost \<Longrightarrow>
         lower (strip a) = ''y'' \<Longrightarrow>
         max_tokens_loop fl L self (l # v # a # ins) out
           = (Inr (), self\<lparr>default_max_tokens := JInt custom\<rparr>, ins,
              out @ [WarnHighValue, WarnCost cost])"
    and "estimate_cost_of fl custom custom (model self) = Inl (ValueError msg) \<Longrightarrow>
         max_tokens_loop fl L self (l # v # ins) out
           = max_tokens_loop fl L self ins (out @ [WarnHighValue, ErrNumber])"
    and "estimate_cost_of fl custom custom (model self) = Inl e \<Longrightarrow>
         (\<forall>msg. e \<noteq> ValueError msg) \<Longrightarrow>
         max_tokens_loop fl L self (l # v # ins) out = (Inl e, self, ins, out @ [WarnHighValue])"
  using assms by (simp_all split: error.splits)

lemma max_tokens_loop_result:
  "max_tokens_loop fl L self ins out = (Inr u, self2, ins2, out2) \<Longrightarrow>
   \<exists>t. self2 = self\<lparr>default_max_tokens := JInt t\<rparr>
       \<and> (t \<in> {1024, 2048, 4096, 8192} \<or> 1 \<le> t \<and> t \<le> L)"
proof (induction ins arbitrary: out rule: length_induct)
  case (1 ins)
  note run = "1.prems"
  have later: "\<exists>t. self2 = self\<lparr>default_max_tokens := JInt t\<rparr>
                   \<and> (t \<in> {1024, 2048, 4096, 8192} \<or> 1 \<le> t \<and> t \<le> L)"
    if "length ins' < length ins"
      and "max_tokens_loop fl L self ins' out' = max_tokens_loop fl L self ins out"
    for ins' out'
    using "1.IH" that run by metis
  show ?case
  proof (cases ins)
    case Nil
    with run show ?thesis by simp
  next
    case (Cons l ins0)
    consider (p1) "strip l = ''1''" | (p2) "strip l = ''2''" | (p3) "strip l = ''3''"
      | (p4) "strip l = ''4''" | (custom) "strip l = ''5''"
      | (other) "strip l \<notin> {''1'', ''2'', ''3'', ''4'', ''5''}"
      by blast
    then show ?thesis
    proof cases
      case p1
      with run Cons show ?thesis by (simp only: max_tokens_preset) auto
    next
      case p2
      with run Cons show ?thesis by (simp only: max_tokens_preset) auto
    next
      case p3
      with run Cons show ?thesis by (simp only: max_tokens_preset) auto
    next
      case p4
      with run Cons show ?thesis by (simp only: max_tokens_preset) auto
    next
      case other
      then have "max_tokens_loop fl L self ins0 (out @ [ErrTokenChoice])
                 = max_tokens_loop fl L self ins out"
        unfolding Cons by (rule max_tokens_other [symmetric])
      then show ?thesis by (rule later [rotated]) (simp add: Cons)
    next
      case custom
      show ?thesis
      proof (cases ins0)
        case Nil
        with run Cons custom show ?thesis by (simp only: max_tokens_custom_eof) simp
      next
        case v: (Cons v ins1)
        show ?thesis
        proof (cases "py_int (strip v)")
          case None
          with custom have "max_tokens_loop fl L self ins1 (out @ [ErrNumber])
                            = max_tokens_loop fl L self ins out"
            unfolding Cons v by (simp only: max_tokens_custom_not_a_number)
          then show ?thesis by (rule later [rotated]) (simp add: Cons v)
        next
          case (Some c)
          consider (range) "c < 1 \<or> L < c" | (plain) "1 \<le> c" "c \<le> L" "c \<le> 10000"
            | (high) "1 \<le> c" "c \<le> L" "10000 < c"
            by linarith
          then show ?thesis
          proof cases
            case range
            with custom Some have "max_tokens_loop fl L self ins1 (out @ [ErrRange L])
                                   = max_tokens_loop fl L self ins out"
              unfolding Cons v by (simp only: max_tokens_custom_out_of_range)
            then show ?thesis by (rule later [rotated]) (simp add: Cons v)
          next
            case plain
            with custom Some
            have "max_tokens_loop fl L self ins out
                  = (Inr (), self\<lparr>default_max_tokens := JInt c\<rparr>, ins1, out)"
              unfolding Cons v by (simp only: max_tokens_custom_plain)
            with run plain show ?thesis by auto
          next
            case high
            note h = max_tokens_custom_high [OF custom Some high]
            show ?thesis
            proof (cases "estimate_cost_of fl c c (model self)")
              case (Inr cost)
              show ?thesis
              proof (cases ins1)
                case Nil
                with run Cons v h(1) [OF Inr] show ?thesis by simp
              next
                case a: (Cons a ins3)
                show ?thesis
                proof (cases "lower (strip a) = ''y''")
                  case True
                  from h(3) [OF Inr True] run high show ?thesis
                    unfolding Cons v a by auto
                next
                  case False
                  from h(2) [OF Inr False]
                  have "max_tokens_loop fl L self ins3 (out @ [WarnHighValue, WarnCost cost])
                        = max_tokens_loop fl L self ins out"
                    unfolding Cons v a by simp
                  then show ?thesis by (rule later [rotated]) (simp add: Cons v a)
                qed
              qed
            next
              case (Inl e)
              show ?thesis
              proof (cases "\<exists>msg. e = ValueError msg")
                case True
                then obtain msg where "e = ValueError msg" by blast
                with Inl have "estimate_cost_of fl c c (model self) = Inl (ValueError msg)"
                  by simp
                then have "max_tokens_loop fl L self (l # v # ins1) out
                      = max_tokens_loop fl L self ins1 (out @ [WarnHighValue, ErrNumber])"
                  by (rule h(4))
                then have "max_tokens_loop fl L self ins1 (out @ [WarnHighValue, ErrNumber])
                      = max_tokens_loop fl L self ins out"
                  by (simp only: Cons v)
                then show ?thesis by (rule later [rotated]) (simp add: Cons v)
              next
                case False
                with h(5) [OF Inl] run show ?thesis unfolding Cons v by simp
              qed
            qed
          qed
        qed
      qed
    qed
  qed
qed


lemma dict_setitem_ok:
  "dict_setitem j k v = Inr j' \<Longrightarrow> \<exists>kvs. j = JObj kvs \<and> j' = JObj (store_key k v kvs)"
  by (cases j) auto

lemma overwrite_holds: "\<exists>r. overwrite d j = Stored r (Holds j)"
  by (cases d) auto

lemma save_success:
  assumes "save_model_to_config self w = (Inr u, w')"
  shows "\<exists>r kvs. w' = w\<lparr>disk := Stored r (Holds (JObj kvs))\<rparr>
           \<and> map_of kvs ''model'' = Some (model self)
           \<and> map_of kvs ''default_max_tokens'' = Some (default_max_tokens self)"
proof -
  from assms obtain config c1 c2 where
    a: "dict_setitem config ''model'' (model self) = Inr c1" and
    b: "dict_setitem c1 ''default_max_tokens'' (default_max_tokens self) = Inr c2" and
    c: "w' = w\<lparr>disk := overwrite (disk w) c2\<rparr>"
    by (auto simp: save_model_to_config_def split: sum.splits if_splits)
  from dict_setitem_ok [OF a] obtain kvs where c1: "c1 = JObj (store_key ''model'' (model self) kvs)"
    by blast
  from dict_setitem_ok [OF b] c1
  have c2: "c2 = JObj (store_key ''default_max_tokens'' (default_max_tokens self)
                        (store_key ''model'' (model self) kvs))"
    by auto
  obtain r where r: "overwrite (disk w) c2 = Stored r (Holds c2)"
    using overwrite_holds by blast
  show ?thesis
    by (rule exI [of _ r],
        rule exI [of _ "store_key ''default_max_tokens'' (default_max_tokens self)
                          (store_key ''model'' (model self) kvs)"])
       (simp add: c r [unfolded c2] c2 map_of_store_key)
qed

lemma prompt_commits_in_range:
  assumes "prompt_model_selection fl self0 w = (Inr u, self', w')"
  shows "\<exists>m t r kvs. self' = \<lparr>model = JStr m, default_max_tokens = JInt t\<rparr>
           \<and> m \<in> set valid_models
           \<and> get_context_limit self' = Inr 200000
           \<and> 1 \<le> t \<and> t \<le> 200000
           \<and> disk w' = Stored r (Holds (JObj kvs))
           \<and> map_of kvs ''model'' = Some (JStr m)
           \<and> map_of kvs ''default_max_tokens'' = Some (JInt t)"
proof -
  obtain r1 self1 ins1 out1 where ml: "model_loop self0 (stdin w) (stdout w) = (r1, self1, ins1, out1)"
    by (metis prod_cases4)
  from assms ml obtain u1 where r1: "r1 = Inr u1"
    by (cases r1) (auto simp: prompt_model_selection_def)
  from model_loop_result [OF ml [unfolded r1]]
  obtain m where m: "m \<in> set valid_models" and self1: "self1 = self0\<lparr>model := JStr m\<rparr>"
    by blast
  have lim: "get_context_limit self1 = Inr 200000"
    using m self1 by (simp add: context_limit_valid)
  obtain r2 self2 ins2 out2
    where tl: "max_tokens_loop fl 200000 self1 ins1 out1 = (r2, self2, ins2, out2)"
    by (metis prod_cases4)
  from assms ml r1 lim tl obtain u2 where r2: "r2 = Inr u2"
    by (cases r2) (auto simp: prompt_model_selection_def)
  from max_tokens_loop_result [OF tl [unfolded r2]]
  obtain t where self2: "self2 = self1\<lparr>default_max_tokens := JInt t\<rparr>"
    and t: "t \<in> {1024, 2048, 4096, 8192} \<or> 1 \<le> t \<and> t \<le> 200000"
    by blast
  obtain r3 w3 where sv: "save_model_to_config self2 (w\<lparr>stdin := ins2, stdout := out2\<rparr>) = (r3, w3)"
    by (cases "save_model_to_config self2 (w\<lparr>stdin := ins2, stdout := out2\<rparr>)")
  from assms ml r1 lim tl r2 sv obtain u3 where r3: "r3 = Inr u3"
    by (cases r3) (auto simp: prompt_model_selection_def)
  from assms ml r1 lim tl r2 sv r3
  have res: "self' = self2" "w' = w3\<lparr>stdout := stdout w3 @ [OkSelected (model self2)]\<rparr>"
    by (auto simp: prompt_model_selection_def)
  from save_success [OF sv [unfolded r3]]
  obtain r kvs
    where kvs: "w3 = w\<lparr>stdin := ins2, stdout := out2, disk := Stored r (Holds (JObj kvs))\<rparr>"
      "map_of kvs ''model'' = Some (model self2)"
      "map_of kvs ''default_max_tokens'' = Some (default_max_tokens self2)"
    by auto
  have s2: "self2 = \<lparr>model = JStr m, default_max_tokens = JInt t\<rparr>"
    using self1 self2 by simp
  have tr: "1 \<le> t \<and> t \<le> 200000" using t by auto
  have lim2: "get_context_limit self2 = Inr 200000"
    using m s2 by (simp add: context_limit_valid)
  from res s2 m tr kvs lim2 show ?thesis by auto
qed


text \<open>
  C7. In the max-tokens loop entered with the context limit \<open>L\<close> of a chosen model, the
  custom value \<open>L\<close> passes the range check and is committed once confirmed, the custom
  values \<open>L + 1\<close> and \<open>0\<close> are rejected with the range message and the loop is entered
  again with the client unchanged. Whenever the setup returns, the client and the stored
  record hold one of the three models and a token limit \<open>t\<close> with
  \<open>1 \<le> t \<le> context_limit(model)\<close>.
\<close>

theorem custom_value_boundaries:
  assumes "model self = JStr m" and "m \<in> set valid_models"
    and "get_context_limit self = Inr L" and "strip l = ''5''"
  shows "(py_int (strip v1) = Some L \<and> lower (strip a) = ''y'' \<longrightarrow>
            (\<exists>cost. estimate_cost fl L L m = Inr cost
               \<and> max_tokens_loop fl L self (l # v1 # a # ins) out
                 = (Inr (), self\<lparr>default_max_tokens := JInt L\<rparr>, ins,
                    out @ [WarnHighValue, WarnCost cost])))
         \<and> (py_int (strip v2) = Some (L + 1) \<longrightarrow>
              max_tokens_loop fl L self (l # v2 # ins) out
                = max_tokens_loop fl L self ins (out @ [ErrRange L]))
         \<and> (py_int (strip v3) = Some 0 \<longrightarrow>
              max_tokens_loop fl L self (l # v3 # ins) out
                = max_tokens_loop fl L self ins (out @ [ErrRange L]))
         \<and> (prompt_model_selection fl self0 w = (Inr (), self', w') \<longrightarrow>
              (\<exists>m' t L' r kvs.
                  self' = \<lparr>model = JStr m', default_max_tokens = JInt t\<rparr>
                  \<and> m' \<in> set valid_models
                  \<and> get_context_limit self' = Inr L'
                  \<and> 1 \<le> t \<and> t \<le> L'
                  \<and> disk w' = Stored r (Holds (JObj kvs))
                  \<and> map_of kvs ''model'' = Some (JStr m')
                  \<and> map_of kvs ''default_max_tokens'' = Some (JInt t)))"
proof (intro conjI impI)
  have L: "L = 200000"
    using assms(1-3) context_limit_valid [of self m] by simp
  {
    assume h: "py_int (strip v1) = Some L \<and> lower (strip a) = ''y''"
    from estimate_cost_valid [OF assms(2), of fl L L] obtain cost
      where c: "estimate_cost fl L L m = Inr cost" by blast
    then have c': "estimate_cost_of fl L L (model self) = Inr cost"
      by (simp add: estimate_cost_of_def assms(1))
    have "max_tokens_loop fl L self (l # v1 # a # ins) out
          = (Inr (), self\<lparr>default_max_tokens := JInt L\<rparr>, ins,
             out @ [WarnHighValue, WarnCost cost])"
      using h max_tokens_custom_high(3) [OF assms(4), of v1 L L fl self cost a ins out] c'
      by (simp add: L)
    with c show "\<exists>cost. estimate_cost fl L L m = Inr cost
               \<and> max_tokens_loop fl L self (l # v1 # a # ins) out
                 = (Inr (), self\<lparr>default_max_tokens := JInt L\<rparr>, ins,
                    out @ [WarnHighValue, WarnCost cost])"
      by blast
  }
  {
    assume p: "py_int (strip v2) = Some (L + 1)"
    have "L + 1 < 1 \<or> L < L + 1" by simp
    from max_tokens_custom_out_of_range [OF assms(4) p this]
    show "max_tokens_loop fl L self (l # v2 # ins) out
                = max_tokens_loop fl L self ins (out @ [ErrRange L])" .
  }
  {
    assume p: "py_int (strip v3) = Some 0"
    have "(0::int) < 1 \<or> L < 0" by simp
    from max_tokens_custom_out_of_range [OF assms(4) p this]
    show "max_tokens_loop fl L self (l # v3 # ins) out
                = max_tokens_loop fl L self ins (out @ [ErrRange L])" .
  }
  {
    assume "prompt_model_selection fl self0 w = (Inr (), self', w')"
    from prompt_commits_in_range [OF this]
    show "\<exists>m' t L' r kvs.
                  self' = \<lparr>model = JStr m', default_max_tokens = JInt t\<rparr>
                  \<and> m' \<in> set valid_models
                  \<and> get_context_limit self' = Inr L'
                  \<and> 1 \<le> t \<and> t \<le> L'
                  \<and> disk w' = Stored r (Holds (JObj kvs))
                  \<and> map_of kvs ''model'' = Some (JStr m')
                  \<and> map_of kvs ''default_max_tokens'' = Some (JInt t)"
      by blast
  }
qed

theorem custom_value_boundaries_witness:
  "strip ''5'' = ''5''
   \<and> get_context_limit \<lparr>model = JStr ''claude-haiku-4-5'', default_max_tokens = JNull\<rparr>
       = Inr 200000
   \<and> py_int (strip ''200000'') = Some 200000
   \<and> py_int (strip ''200001'') = Some (200000 + 1)
   \<and> py_int (strip ''0'') = Some 0
   \<and> max_tokens_loop exact_ops 200000
         \<lparr>model = JStr ''claude-haiku-4-5'', default_max_tokens = JNull\<rparr>
         [''5'', ''200000'', ''y''] []
       = (Inr (), \<lparr>model = JStr ''claude-haiku-4-5'', default_max_tokens = JInt 200000\<rparr>, [],
          [WarnHighValue, WarnCost (6 / 5)])
   \<and> max_tokens_loop exact_ops 200000
         \<lparr>model = JStr ''claude-haiku-4-5'', default_max_tokens = JNull\<rparr>
         [''5'', ''200001''] []
       = (Inl EOFError, \<lparr>model = JStr ''claude-haiku-4-5'', default_max_tokens = JNull\<rparr>, [],
          [ErrRange 200000])
   \<and> max_tokens_loop exact_ops 200000
         \<lparr>model = JStr ''claude-haiku-4-5'', default_max_tokens = JNull\<rparr>
         [''5'', ''0''] []
       = (Inl EOFError, \<lparr>model = JStr ''claude-haiku-4-5'', default_max_tokens = JNull\<rparr>, [],
          [ErrRange 200000])
   \<and> prompt_model_selection exact_ops \<lparr>model = JNull, default_max_tokens = JNull\<rparr>
         \<lparr>disk = Missing, writable = True, stdin = [''3'', ''5'', ''200000'', ''y''],
          stdout = []\<rparr>
       = (Inr (), \<lparr>model = JStr ''claude-opus-4-5'', default_max_tokens = JInt 200000\<rparr>,
          \<lparr>disk = Stored True (Holds (JObj [(''model'', JStr ''claude-opus-4-5''),
                                             (''default_max_tokens'', JInt 200000)])),
           writable = True, stdin = [],
           stdout = [WarnHighValue, WarnCost 6, OkSelected (JStr ''claude-opus-4-5'')]\<rparr>)
   \<and> get_context_limit \<lparr>model = JStr ''claude-opus-4-5'', default_max_tokens = JInt 200000\<rparr>
       = Inr 200000"
proof -
  let ?p = "\<lparr>model = JStr ''claude-haiku-4-5'', default_max_tokens = JNull\<rparr>"
  let ?q = "\<lparr>model = JNull, default_max_tokens = JNull\<rparr>"
  let ?w = "\<lparr>disk = Missing, writable = True, stdin = [''3'', ''5'', ''200000'', ''y''],
             stdout = []\<rparr> :: rat world"
  let ?p' = "\<lparr>model = JStr ''claude-opus-4-5'', default_max_tokens = JInt 200000\<rparr>"
  let ?w' = "\<lparr>disk = Stored True (Holds (JObj [(''model'', JStr ''claude-opus-4-5''),
                                               (''default_max_tokens'', JInt 200000)])),
             writable = True, stdin = [],
             stdout = [WarnHighValue, WarnCost 6, OkSelected (JStr ''claude-opus-4-5'')]\<rparr>
            :: rat world"
  have m: "model ?p = JStr ''claude-haiku-4-5''" by simp
  have v: "''claude-haiku-4-5'' \<in> set valid_models"
    by (simp add: valid_models_def HAIKU_MODEL_def)
  have g: "get_context_limit ?p = Inr 200000" by code_simp
  have five: "strip ''5'' = ''5''" by code_simp
  have v1: "py_int (strip ''200000'') = Some 200000" by code_simp
  have y: "lower (strip ''y'') = ''y''" by code_simp
  have v2: "py_int (strip ''200001'') = Some (200000 + 1)" by code_simp
  have v3: "py_int (strip ''0'') = Some 0" by code_simp
  have c: "estimate_cost exact_ops 200000 200000 ''claude-haiku-4-5'' = Inr (6 / 5)"
    by code_simp
  have run: "prompt_model_selection exact_ops ?q ?w = (Inr (), ?p', ?w')" by code_simp
  have g': "get_context_limit ?p' = Inr 200000" by code_simp
  note t = custom_value_boundaries
             [where self = ?p and m = "''claude-haiku-4-5''" and L = 200000 and l = "''5''"
                and ?v1.0 = "''200000''" and a = "''y''" and ?v2.0 = "''200001''"
                and ?v3.0 = "''0''" and fl = exact_ops and ins = "[]" and out = "[]"
                and self0 = ?q and w = ?w and self' = ?p' and w' = ?w',
              OF m v g five]
  from t v1 y obtain cost
    where c': "estimate_cost exact_ops 200000 200000 ''claude-haiku-4-5'' = Inr cost"
      and e: "max_tokens_loop exact_ops 200000 ?p (''5'' # ''200000'' # ''y'' # []) []
              = (Inr (), ?p\<lparr>default_max_tokens := JInt 200000\<rparr>, [],
                 [] @ [WarnHighValue, WarnCost cost])"
    by blast
  from c c' have cost: "cost = 6 / 5" by simp
  have a: "max_tokens_loop exact_ops 200000 ?p [''5'', ''200000'', ''y''] []
           = (Inr (), ?p\<lparr>default_max_tokens := JInt 200000\<rparr>, [],
              [WarnHighValue, WarnCost (6 / 5)])"
    using e by (simp del: max_tokens_loop.simps add: cost)
  have eof: "max_tokens_loop exact_ops 200000 ?p [] [ErrRange 200000]
             = (Inl EOFError, ?p, [], [ErrRange 200000])"
    by simp
  from t v2
  have "max_tokens_loop exact_ops 200000 ?p (''5'' # ''200001'' # []) []
           = max_tokens_loop exact_ops 200000 ?p [] ([] @ [ErrRange 200000])"
    by blast
  with eof have b: "max_tokens_loop exact_ops 200000 ?p [''5'', ''200001''] []
           = (Inl EOFError, ?p, [], [ErrRange 200000])"
    by (simp del: max_tokens_loop.simps)
  from t v3
  have "max_tokens_loop exact_ops 200000 ?p (''5'' # ''0'' # []) []
           = max_tokens_loop exact_ops 200000 ?p [] ([] @ [ErrRange 200000])"
    by blast
  with eof have d: "max_tokens_loop exact_ops 200000 ?p [''5'', ''0''] []
           = (Inl EOFError, ?p, [], [ErrRange 200000])"
    by (simp del: max_tokens_loop.simps)
  from five g v1 v2 v3 a b d run g' show ?thesis
    by (simp del: max_tokens_loop.simps)
qed

text \<open>
  C8. In the max-tokens loop an in-range custom value above 10000 prints the warning with
  the cost \<open>estimate_cost(custom, custom, model)\<close> and waits for a confirmation; any
  answer other than \<open>y\<close> re-enters the loop with the client unchanged, \<open>y\<close> commits the
  value. An in-range custom value of at most 10000 is committed at once, with no warning.
\<close>

theorem high_cost_confirmation:
  assumes "model self = JStr m" and "m \<in> set valid_models" and "strip l = ''5''"
    and "py_int (strip v) = Some custom" and "1 \<le> custom" and "custom \<le> L"
  shows "(10000 < custom \<longrightarrow>
            (\<exists>cost. estimate_cost fl custom custom m = Inr cost
               \<and> max_tokens_loop fl L self [l, v] out
                 = (Inl EOFError, self, [], out @ [WarnHighValue, WarnCost cost])
               \<and> (lower (strip a_no) \<noteq> ''y'' \<longrightarrow>
                    max_tokens_loop fl L self (l # v # a_no # ins) out
                      = max_tokens_loop fl L self ins (out @ [WarnHighValue, WarnCost cost]))
               \<and> (lower (strip a_yes) = ''y'' \<longrightarrow>
                    max_tokens_loop fl L self (l # v # a_yes # ins) out
                      = (Inr (), self\<lparr>default_max_tokens := JInt custom\<rparr>, ins,
                         out @ [WarnHighValue, WarnCost cost]))))
         \<and> (custom \<le> 10000 \<longrightarrow>
              max_tokens_loop fl L self (l # v # ins) out
                = (Inr (), self\<lparr>default_max_tokens := JInt custom\<rparr>, ins, out))"
proof (intro conjI impI)
  assume "custom \<le> 10000"
  then show "max_tokens_loop fl L self (l # v # ins) out
             = (Inr (), self\<lparr>default_max_tokens := JInt custom\<rparr>, ins, out)"
    by (intro max_tokens_custom_plain [OF assms(3-6)])
next
  assume high: "10000 < custom"
  from estimate_cost_valid [OF assms(2), of fl custom custom] obtain cost
    where c: "estimate_cost fl custom custom m = Inr cost" by blast
  then have c': "estimate_cost_of fl custom custom (model self) = Inr cost"
    by (simp add: estimate_cost_of_def assms(1))
  note h = max_tokens_custom_high [OF assms(3-6) high]
  from c h(1) [OF c'] h(2) [OF c'] h(3) [OF c']
  show "\<exists>cost. estimate_cost fl custom custom m = Inr cost
               \<and> max_tokens_loop fl L self [l, v] out
                 = (Inl EOFError, self, [], out @ [WarnHighValue, WarnCost cost])
               \<and> (lower (strip a_no) \<noteq> ''y'' \<longrightarrow>
                    max_tokens_loop fl L self (l # v # a_no # ins) out
                      = max_tokens_loop fl L self ins (out @ [WarnHighValue, WarnCost cost]))
               \<and> (lower (strip a_yes) = ''y'' \<longrightarrow>
                    max_tokens_loop fl L self (l # v # a_yes # ins) out
                      = (Inr (), self\<lparr>default_max_tokens := JInt custom\<rparr>, ins,
                         out @ [WarnHighValue, WarnCost cost]))"
    by blast
qed

theorem high_cost_confirmation_witness:
  "strip ''5'' = ''5''
   \<and> py_int (strip ''10001'') = Some 10001
   \<and> py_int (strip ''10000'') = Some 10000
   \<and> lower (strip ''n'') \<noteq> ''y''
   \<and> lower (strip '' Y '') = ''y''
   \<and> estimate_cost exact_ops 10001 10001 ''claude-sonnet-4-5'' = Inr (90009 / 500000)
   \<and> max_tokens_loop exact_ops 200000
         \<lparr>model = JStr ''claude-sonnet-4-5'', default_max_tokens = JNull\<rparr>
         [''5'', ''10001''] []
       = (Inl EOFError, \<lparr>model = JStr ''claude-sonnet-4-5'', default_max_tokens = JNull\<rparr>, [],
          [WarnHighValue, WarnCost (90009 / 500000)])
   \<and> max_tokens_loop exact_ops 200000
         \<lparr>model = JStr ''claude-sonnet-4-5'', default_max_tokens = JNull\<rparr>
         [''5'', ''10001'', ''n'', ''2''] []
       = (Inr (), \<lparr>model = JStr ''claude-sonnet-4-5'', default_max_tokens = JInt 2048\<rparr>, [],
          [WarnHighValue, WarnCost (90009 / 500000)])
   \<and> max_tokens_loop exact_ops 200000
         \<lparr>model = JStr ''claude-sonnet-4-5'', default_max_tokens = JNull\<rparr>
         [''5'', ''10001'', '' Y '', ''2''] []
       = (Inr (), \<lparr>model = JStr ''claude-sonnet-4-5'', default_max_tokens = JInt 10001\<rparr>,
          [''2''], [WarnHighValue, WarnCost (90009 / 500000)])
   \<and> max_tokens_loop exact_ops 200000
         \<lparr>model = JStr ''claude-sonnet-4-5'', default_max_tokens = JNull\<rparr>
         [''5'', ''10000'', ''2''] []
       = (Inr (), \<lparr>model = JStr ''claude-sonnet-4-5'', default_max_tokens = JInt 10000\<rparr>,
          [''2''], [])"
proof -
  let ?p = "\<lparr>model = JStr ''claude-sonnet-4-5'', default_max_tokens = JNull\<rparr>"
  have m: "model ?p = JStr ''claude-sonnet-4-5''" by simp
  have v: "''claude-sonnet-4-5'' \<in> set valid_models"
    by (simp add: valid_models_def SONNET_MODEL_def)
  have five: "strip ''5'' = ''5''" by code_simp
  have hi: "py_int (strip ''10001'') = Some 10001" by code_simp
  have lo: "py_int (strip ''10000'') = Some 10000" by code_simp
  have no: "lower (strip ''n'') \<noteq> ''y''" by code_simp
  have yes: "lower (strip '' Y '') = ''y''" by code_simp
  have c: "estimate_cost exact_ops 10001 10001 ''claude-sonnet-4-5'' = Inr (90009 / 500000)"
    by code_simp
  have two: "max_tokens_loop exact_ops 200000 ?p [''2'']
               [WarnHighValue, WarnCost (90009 / 500000)]
             = (Inr (), ?p\<lparr>default_max_tokens := JInt 2048\<rparr>, [],
                [WarnHighValue, WarnCost (90009 / 500000)])"
    by (rule max_tokens_preset(2)) code_simp
  note h = high_cost_confirmation
             [where self = ?p and m = "''claude-sonnet-4-5''" and l = "''5''"
                and v = "''10001''" and custom = 10001 and L = 200000 and fl = exact_ops
                and out = "[]" and a_no = "''n''" and a_yes = "'' Y ''" and ins = "[''2'']",
              OF m v five hi]
  note k = high_cost_confirmation
             [where self = ?p and m = "''claude-sonnet-4-5''" and l = "''5''"
                and v = "''10000''" and custom = 10000 and L = 200000 and fl = exact_ops
                and out = "[]" and ins = "[''2'']",
              OF m v five lo]
  have r: "1 \<le> (10001::int)" "(10001::int) \<le> 200000" "10000 < (10001::int)"
          "1 \<le> (10000::int)" "(10000::int) \<le> 200000" "(10000::int) \<le> 10000"
    by simp_all
  from h [OF r(1,2)] r(3) obtain cost
    where c': "estimate_cost exact_ops 10001 10001 ''claude-sonnet-4-5'' = Inr cost"
      and e: "max_tokens_loop exact_ops 200000 ?p [''5'', ''10001''] []
              = (Inl EOFError, ?p, [], [] @ [WarnHighValue, WarnCost cost])"
      and n: "lower (strip ''n'') \<noteq> ''y'' \<longrightarrow>
              max_tokens_loop exact_ops 200000 ?p (''5'' # ''10001'' # ''n'' # [''2'']) []
              = max_tokens_loop exact_ops 200000 ?p [''2''] ([] @ [WarnHighValue, WarnCost cost])"
      and y: "lower (strip '' Y '') = ''y'' \<longrightarrow>
              max_tokens_loop exact_ops 200000 ?p (''5'' # ''10001'' # '' Y '' # [''2'']) []
              = (Inr (), ?p\<lparr>default_max_tokens := JInt 10001\<rparr>, [''2''],
                 [] @ [WarnHighValue, WarnCost cost])"
    by blast
  from c c' have cost: "cost = 90009 / 500000" by simp
  have a1: "max_tokens_loop exact_ops 200000 ?p [''5'', ''10001''] []
             = (Inl EOFError, ?p, [], [WarnHighValue, WarnCost (90009 / 500000)])"
    using e by (simp del: max_tokens_loop.simps add: cost)
  have a2: "max_tokens_loop exact_ops 200000 ?p [''5'', ''10001'', ''n'', ''2''] []
             = (Inr (), ?p\<lparr>default_max_tokens := JInt 2048\<rparr>, [],
                [WarnHighValue, WarnCost (90009 / 500000)])"
    using n no two by (simp del: max_tokens_loop.simps add: cost)
  have a3: "max_tokens_loop exact_ops 200000 ?p [''5'', ''10001'', '' Y '', ''2''] []
             = (Inr (), ?p\<lparr>default_max_tokens := JInt 10001\<rparr>, [''2''],
                [WarnHighValue, WarnCost (90009 / 500000)])"
    using y yes by (simp del: max_tokens_loop.simps add: cost)
  note a = a1 a2 a3
  from k [OF r(4,5)] r(6)
  have b: "max_tokens_loop exact_ops 200000 ?p [''5'', ''10000'', ''2''] []
             = (Inr (), ?p\<lparr>default_max_tokens := JInt 10000\<rparr>, [''2''], [])"
    by blast
  from five hi lo no yes c a b show ?thesis
    by (simp del: max_tokens_loop.simps)
qed

end
